theory Spec2Isabelle
  imports Complex_Main "HOL-Library.Word"
begin

unbundle bit_operations_syntax

section \<open>Python values shared by all components\<close>

text \<open>
  Exceptions are values. The kind is the Python class that the \<open>except\<close> clauses
  of the source discriminate on; the string is what \<open>str(e)\<close> gives.
\<close>

datatype exn_kind =
    AttributeError | TypeError | ValueError | RuntimeError | IOError | OSError
  | OverflowError | IndexError | UnicodeEncodeError
  | ControllerNotRunningError | APICommandError | StatusError

datatype exn = Exn (kind: exn_kind) (str_exn: string)

text \<open>
  What a method returns where the source mixes \<open>return True\<close>, \<open>return False\<close>
  and \<open>return self._report_error(...)\<close>; the latter returns \<open>None\<close>, because
  \<open>_report_error\<close> has no return statement. \<open>truthy\<close> is Python's truth value,
  the only thing the callers in this repository look at.
\<close>

datatype pyret = PyNone | PyBool bool

fun truthy :: "pyret \<Rightarrow> bool" where
  "truthy PyNone = False"
| "truthy (PyBool b) = b"

text \<open>\<open>str(n)\<close> and the format \<open>{n:03d}\<close> of a Python integer.\<close>

definition digit_char :: "nat \<Rightarrow> char" where
  "digit_char d = ''0123456789'' ! d"

fun str_nat :: "nat \<Rightarrow> string" where
  "str_nat n = (if n < 10 then [digit_char n] else str_nat (n div 10) @ [digit_char (n mod 10)])"

declare str_nat.simps [simp del]

definition str_int :: "int \<Rightarrow> string" where
  "str_int i = (if i < 0 then CHR ''-'' # str_nat (nat (- i)) else str_nat (nat i))"

definition fmt_03d :: "int \<Rightarrow> string" where
  "fmt_03d i =
     (if i < 0 then CHR ''-'' # replicate (2 - length (str_nat (nat (- i)))) CHR ''0'' @ str_nat (nat (- i))
      else replicate (3 - length (str_nat (nat i))) CHR ''0'' @ str_nat (nat i))"

text \<open>\<open>s.encode('ascii')\<close> succeeds exactly when every character is below 128.\<close>

definition is_ascii :: "string \<Rightarrow> bool" where
  "is_ascii s = list_all (\<lambda>c. (of_char c :: nat) < 128) s"

section \<open>The records of the DP5 API (api/dp5\_api.py)\<close>

definition MAX_BUFFER_DATA :: int where "MAX_BUFFER_DATA = 8192"
definition MAX_DESCRIPTION_SIZE :: nat where "MAX_DESCRIPTION_SIZE = 128"
definition MAX_TAG_SIZE :: nat where "MAX_TAG_SIZE = 16"

text \<open>
  \<open>DP5_DP4_FORMAT_STATUS\<close>: the raw block is an array of unsigned bytes; of the
  decoded fields only those that the controller copies into a file record are kept.
\<close>

record DP5_DP4_FORMAT_STATUS =
  RAW :: "8 word list"
  SerialNumber :: "32 word"
  AccumulationTime :: real
  RealTime :: real

text \<open>\<open>Spec\<close>: channel data of C type long (32 bit) and the channel count, a C short.\<close>

record Spec =
  DATA :: "32 word list"
  CHANNELS :: "16 word"

record SpecFile =
  strTag :: string
  strDescription :: string
  sf_AccumulationTime :: real
  sf_RealTime :: real
  sf_SerialNumber :: "32 word"

section \<open>Signals and effects\<close>

text \<open>
  Every signal emission and every effect on the outside (a command handed to the MiniX
  API, a file written by the DP5 API, a thread started, a timer armed) is appended to
  one chronological trace. The two controllers share the signals of their base class;
  the device says whose signal it is.
\<close>

datatype device = DP5 | MiniX

datatype MiniXCommands = mxcStartMiniX | mxcHVOn | mxcHVOff | mxcSetHVandCurrent | mxcExit

datatype event =
    connection_changed device bool
  | error_occurred device string
  | status_message device string
  | acquisition_state_changed bool
  | status_updated DP5_DP4_FORMAT_STATUS
  | spectrum_updated "32 word list"
  | hv_state_changed bool
  | sequence_started
  | sequence_step_starting int int
  | sequence_step_finished int int
  | sequence_pausing int
  | sequence_finished int
  | sequence_aborted string
  | sequence_status_update string
  | request_safe_hv_on
  | acquisition_started
  | acquisition_finished bool
  | acquisition_aborted string
  | acquisition_status_update string
  | SendMiniXCommand MiniXCommands
  | SaveMCADataToFile string Spec SpecFile
  | thread_started nat "string option" "real option"
  | worker_stop nat
  | singleShot int

section \<open>controllers/base\_controller.py\<close>

record BaseController =
  api :: bool
  is_connected :: bool
  last_error :: string

text \<open>
  The protected methods return the new object and what they emit.
  \<open>print\<close> has no effect on the model.
\<close>

definition set_connected ::
  "device \<Rightarrow> bool \<Rightarrow> 'a BaseController_scheme \<Rightarrow> 'a BaseController_scheme \<times> event list" where
  "set_connected dev connected_state c =
     (if is_connected c \<noteq> connected_state
      then (c\<lparr>is_connected := connected_state\<rparr>, [connection_changed dev connected_state])
      else (c, []))"

definition report_error ::
  "device \<Rightarrow> string \<Rightarrow> 'a BaseController_scheme \<Rightarrow> 'a BaseController_scheme \<times> event list" where
  "report_error dev message c = (c\<lparr>last_error := message\<rparr>, [error_occurred dev message])"

definition post_status_message :: "device \<Rightarrow> string \<Rightarrow> event list" where
  "post_status_message dev message = [status_message dev message]"

section \<open>controllers/minix\_controller.py\<close>

record MiniXController = BaseController +
  is_controller_app_running :: bool
  hv_on :: bool

definition set_hv_on_state :: "bool \<Rightarrow> MiniXController \<Rightarrow> MiniXController \<times> event list" where
  \<comment> \<open>\<open>_set_hv_on\<close>; \<open>bool(hv_state)\<close> is the identity on a boolean\<close>
  "set_hv_on_state hv_state c =
     (let current_hv_state = hv_state in
      if hv_on c \<noteq> current_hv_state
      then (c\<lparr>hv_on := current_hv_state\<rparr>, [hv_state_changed current_hv_state])
      else (c, []))"

section \<open>controllers/dp5\_controller.py: the object and its local setter\<close>

record DP5Controller = BaseController +
  has_SaveMCADataToFile :: bool
  is_acquiring :: bool
  last_config_file :: "string option"
  worker :: "nat option"
  thread :: "nat option"
  last_spectrum_data :: "32 word list option"
  last_status_data :: "DP5_DP4_FORMAT_STATUS option"

definition set_acquiring :: "bool \<Rightarrow> DP5Controller \<Rightarrow> DP5Controller \<times> event list" where
  "set_acquiring acquiring_state c =
     (if is_acquiring c \<noteq> acquiring_state
      then (c\<lparr>is_acquiring := acquiring_state\<rparr>, [acquisition_state_changed acquiring_state])
      else (c, []))"

section \<open>The operating system and the formatting of floats\<close>

text \<open>
  \<open>os.path\<close>, \<open>time.strftime\<close> and Python's rendering of a float are not part of
  the repository; the functions below are parameters of the model. \<open>path_exists\<close>
  may raise (it does for some malformed paths on older interpreters), the others do
  not raise on strings.
\<close>

record os_env =
  path_exists :: "string \<Rightarrow> exn + bool"
  path_isdir :: "string \<Rightarrow> bool"
  path_basename :: "string \<Rightarrow> string"
  path_dirname :: "string \<Rightarrow> string"
  path_join :: "string \<Rightarrow> string \<Rightarrow> string"
  strftime :: string
  str_float :: "real \<Rightarrow> string"
  fmt_1f :: "real \<Rightarrow> string"

section \<open>workers/dp5\_worker.py\<close>

datatype signal =
    status_ready DP5_DP4_FORMAT_STATUS
  | spectrum_ready "32 word list"
  | message string
  | finished
  | error string

text \<open>Which functions the loaded API module offers (the \<open>hasattr\<close> tests).\<close>

record dp5_api_functions =
  has_SendConfigFileToDpp :: bool
  has_send_ascii_command :: bool
  has_EnableMCA :: bool
  has_GetDppStatus :: bool
  has_DppStatusToStruct :: bool
  has_RequestSpectrumData :: bool
  has_DisableMCA :: bool

text \<open>
  What the device and the API answer during the set-up and the clean-up of one run.
  \<open>SendConfigFileToDpp\<close> stands for the whole call
  \<open>dp5_api.SendConfigFileToDpp(path.encode('ascii'))\<close>. \<open>stop_during_setup\<close>
  says that the controller called \<open>stop\<close> after \<open>run\<close> had set the liveness
  flag and before the loop tested it for the first time.
\<close>

record worker_env =
  DP5_API_LOADED :: bool
  funcs :: dp5_api_functions
  os :: os_env
  alloc_Spec :: "exn option"
  alloc_STATUS :: "exn option"
  SendConfigFileToDpp :: "string \<Rightarrow> exn + int"
  send_ascii_command :: "string \<Rightarrow> exn + bool"
  EnableMCA :: "exn option"
  stop_during_setup :: bool
  final_status :: "exn + DP5_DP4_FORMAT_STATUS"
  DisableMCA :: "exn option"

text \<open>
  What one iteration of the poll loop meets: the answers of the three API calls, and
  whether \<open>stop\<close> arrives from the controller's thread during the iteration (it
  is seen by the next test of the loop condition).
\<close>

record poll =
  GetDppStatus :: "exn option"
  DppStatusToStruct :: "exn + DP5_DP4_FORMAT_STATUS"
  RequestSpectrumData :: "exn + Spec \<times> DP5_DP4_FORMAT_STATUS"
  stop_called :: bool

record DP5AcquisitionWorker =
  running :: bool
  config_file_path :: "string option"
  preset_time :: "real option"
  spectrum_buffer :: "Spec option"
  status_buffer :: "DP5_DP4_FORMAT_STATUS option"

definition new_Spec :: Spec where
  "new_Spec = \<lparr>DATA = replicate 8192 0, CHANNELS = 0\<rparr>"

definition new_STATUS :: DP5_DP4_FORMAT_STATUS where
  "new_STATUS = \<lparr>RAW = replicate 64 0, SerialNumber = 0, AccumulationTime = 0, RealTime = 0\<rparr>"

definition init ::
  "worker_env \<Rightarrow> string option \<Rightarrow> real option \<Rightarrow> DP5AcquisitionWorker \<times> signal list" where
  "init env config_file preset =
     (let w = \<lparr>running = False, config_file_path = config_file, preset_time = preset,
                spectrum_buffer = None, status_buffer = None\<rparr> in
      if DP5_API_LOADED env then
        (case alloc_Spec env of
           Some e \<Rightarrow>
             (w, [error (if kind e = AttributeError then ''DP5 API Structs missing.''
                         else ''Error allocating DP5 buffers: '' @ str_exn e)])
         | None \<Rightarrow>
             (case alloc_STATUS env of
                Some e \<Rightarrow>
                  (w\<lparr>spectrum_buffer := Some new_Spec\<rparr>,
                   [error (if kind e = AttributeError then ''DP5 API Structs missing.''
                           else ''Error allocating DP5 buffers: '' @ str_exn e)])
              | None \<Rightarrow>
                  (w\<lparr>spectrum_buffer := Some new_Spec, status_buffer := Some new_STATUS\<rparr>, [])))
      else (w, []))"

definition stop :: "DP5AcquisitionWorker \<Rightarrow> DP5AcquisitionWorker \<times> signal list" where
  "stop w = (w\<lparr>running := False\<rparr>, if running w then [message ''Stop requested.''] else [])"

text \<open>\<open>stop\<close>, if it is called at this point (from the controller's thread).\<close>

definition stop_if :: "bool \<Rightarrow> DP5AcquisitionWorker \<Rightarrow> DP5AcquisitionWorker \<times> signal list" where
  "stop_if called w = (if called then stop w else (w, []))"

text \<open>\<open>RAW[i]\<close>; reading past the end raises.\<close>

definition raw_byte :: "DP5_DP4_FORMAT_STATUS \<Rightarrow> nat \<Rightarrow> exn + 8 word" where
  "raw_byte st i = (if i < length (RAW st) then Inr (RAW st ! i)
                    else Inl (Exn IndexError ''invalid index''))"

definition mca_enabled_flag :: "8 word \<Rightarrow> 8 word" where
  "mca_enabled_flag b = (drop_bit 5 b) AND 1"

text \<open>
  The spectrum that is published from the buffer: the first \<open>CHANNELS\<close> entries, if the
  count is positive and at most \<open>MAX_BUFFER_DATA\<close>; nothing otherwise.
\<close>

definition publish_spectrum :: "Spec \<Rightarrow> signal list" where
  "publish_spectrum sp =
     (let num_channels = sint (CHANNELS sp) in
      if num_channels > 0 \<and> num_channels \<le> MAX_BUFFER_DATA
      then [spectrum_ready (take (nat num_channels) (DATA sp))] else [])"

text \<open>\<open>s in t\<close> on strings.\<close>

fun contains :: "string \<Rightarrow> string \<Rightarrow> bool" where
  "contains s [] = (s = [])"
| "contains s (c # cs) = (take (length s) (c # cs) = s \<or> contains s cs)"

subsection \<open>Set-up: configuration, preset command, enabling the analyzer\<close>

text \<open>
  Step 1. The first component is an exception that leaves the step (it reaches the
  outermost handler of \<open>run\<close>), the second is \<open>config_ok\<close>.
\<close>

definition send_configuration ::
  "worker_env \<Rightarrow> DP5AcquisitionWorker \<Rightarrow> exn option \<times> bool \<times> signal list" where
  "send_configuration env w =
     (case config_file_path w of
        None \<Rightarrow> (None, True, [message ''No config file specified.''])
      | Some p \<Rightarrow>
          if p = [] then (None, True, [message ''No config file specified.''])
          else
            (let m = [message (''Sending config: '' @ path_basename (os env) p)] in
             case path_exists (os env) p of
               Inl e \<Rightarrow> (Some e, True, m)
             | Inr False \<Rightarrow> (None, False, m @ [error (''Config file not found: '' @ p)])
             | Inr True \<Rightarrow>
                 if \<not> has_SendConfigFileToDpp (funcs env)
                 then (None, False, m @ [error ''SendConfigFileToDpp function not available in API.''])
                 else
                   (case SendConfigFileToDpp env p of
                      Inl e \<Rightarrow> (None, False, m @ [error (''Error sending config: '' @ str_exn e)])
                    | Inr r \<Rightarrow>
                        if r = 1 then (None, True, m @ [message ''Config sent.''])
                        else (None, False, m @ [error ''Failed send config (API Error).'']))))"

definition pret_command :: "worker_env \<Rightarrow> DP5AcquisitionWorker \<Rightarrow> string" where
  "pret_command env w =
     (case preset_time w of
        None \<Rightarrow> ''PRET=OFF;''
      | Some t \<Rightarrow> if t > 0 then ''PRET='' @ fmt_1f (os env) t @ '';'' else ''PRET=OFF;'')"

text \<open>Step 2; takes and returns \<open>config_ok\<close>.\<close>

definition send_preset ::
  "worker_env \<Rightarrow> DP5AcquisitionWorker \<Rightarrow> bool \<Rightarrow> bool \<times> signal list" where
  "send_preset env w config_ok =
     (if config_ok then
        if \<not> has_send_ascii_command (funcs env)
        then (False, [error ''send_ascii_command helper not available in API module.''])
        else
          (let cmd = pret_command env w;
               m = [message (''Sending Preset Command: '' @ cmd)] in
           case send_ascii_command env cmd of
             Inl e \<Rightarrow> (False, m @ [error (''Exception sending PRET command: '' @ str_exn e)])
           | Inr send_success \<Rightarrow>
               if \<not> send_success
               then (if \<not> contains ''PRET=OFF'' cmd then False else config_ok,
                     m @ [error (''Failed send command: '' @ cmd)])
               else (config_ok, m @ [message ''Preset command sent.'']))
      else (config_ok, []))"

text \<open>Step 3; returns \<open>config_ok\<close> and \<open>acq_started\<close>.\<close>

definition enable_mca :: "worker_env \<Rightarrow> bool \<Rightarrow> bool \<times> bool \<times> signal list" where
  "enable_mca env config_ok =
     (if config_ok then
        if \<not> has_EnableMCA (funcs env)
        then (False, False, [error ''EnableMCA function not available in API.''])
        else
          (case EnableMCA env of
             Some e \<Rightarrow> (config_ok, False,
                        [message ''Enabling MCA...'', error (''Error enabling MCA: '' @ str_exn e)])
           | None \<Rightarrow> (config_ok, True,
                      [message ''Enabling MCA...'', message ''Acquisition Running...'']))
      else (config_ok, False, [message ''Skipping MCA enable due to previous setup failure.'']))"

definition status_funcs_ok :: "worker_env \<Rightarrow> bool" where
  "status_funcs_ok env = (has_GetDppStatus (funcs env) \<and> has_DppStatusToStruct (funcs env))"

definition spectrum_func_ok :: "worker_env \<Rightarrow> bool" where
  "spectrum_func_ok env = has_RequestSpectrumData (funcs env)"

text \<open>Step 4; takes and returns \<open>acq_started\<close>.\<close>

definition loop_checks :: "worker_env \<Rightarrow> bool \<Rightarrow> bool \<times> signal list" where
  "loop_checks env acq_started =
     (if \<not> status_funcs_ok env \<or> \<not> spectrum_func_ok env
      then (False, [error ''Required API functions for acquisition loop missing.''])
      else (acq_started, []))"

subsection \<open>The acquisition loop\<close>

datatype flow = Next | Break

text \<open>
  The statements of the \<open>try\<close> block of one iteration. The first component is the
  exception that leaves the block, if any.
\<close>

definition poll_device ::
  "poll \<Rightarrow> DP5AcquisitionWorker \<Rightarrow> exn option \<times> DP5AcquisitionWorker \<times> signal list" where
  "poll_device p w =
     (case GetDppStatus p of
        Some e \<Rightarrow> (Some e, w, [])
      | None \<Rightarrow>
     (case DppStatusToStruct p of
        Inl e \<Rightarrow> (Some e, w, [])
      | Inr st \<Rightarrow>
     (let w1 = w\<lparr>status_buffer := Some st\<rparr>;
          evs1 = [status_ready st] in
      case raw_byte st 35 of
        Inl e \<Rightarrow> (Some e, w1, evs1)
      | Inr b \<Rightarrow>
          if mca_enabled_flag b = 0 then
            (let evs2 = evs1 @ [message ''MCA Disabled flag detected. Acquisition finished.''];
                 w2 = w1\<lparr>running := False\<rparr> in
             case RequestSpectrumData p of
               Inl e \<Rightarrow> (None, w2, evs2 @ [error (''Error getting final spectrum: '' @ str_exn e)])
             | Inr (sp, st') \<Rightarrow>
                 (None, w2\<lparr>spectrum_buffer := Some sp, status_buffer := Some st'\<rparr>,
                  evs2 @ publish_spectrum sp))
          else
            (case RequestSpectrumData p of
               Inl e \<Rightarrow> (Some e, w1, evs1)
             | Inr (sp, st') \<Rightarrow>
                 (None, w1\<lparr>spectrum_buffer := Some sp, status_buffer := Some st'\<rparr>,
                  evs1 @ publish_spectrum sp)))))"

text \<open>One iteration with its two handlers.\<close>

definition iteration ::
  "poll \<Rightarrow> DP5AcquisitionWorker \<Rightarrow> flow \<times> DP5AcquisitionWorker \<times> signal list" where
  "iteration p w =
     (case poll_device p w of
        (None, w', evs) \<Rightarrow> (Next, w', evs)
      | (Some e, w', evs) \<Rightarrow>
          if kind e = AttributeError
          then (Break, w'\<lparr>running := False\<rparr>,
                evs @ [error (''API attribute error during loop: '' @ str_exn e)])
          else (Next, w', evs @ [error (''Error during acquisition loop: '' @ str_exn e)]))"

text \<open>
  \<open>while self._running and acq_started\<close>. The device's answers are a finite script;
  \<open>None\<close> says that the loop was still running when the script ended.
\<close>

fun acquisition_loop ::
  "bool \<Rightarrow> poll list \<Rightarrow> DP5AcquisitionWorker \<Rightarrow> (DP5AcquisitionWorker \<times> signal list) option" where
  "acquisition_loop acq_started [] w =
     (if running w \<and> acq_started then None else Some (w, []))"
| "acquisition_loop acq_started (p # ps) w =
     (if running w \<and> acq_started then
        (case iteration p w of
           (Break, w', evs) \<Rightarrow> Some (w', evs)
         | (Next, w', evs) \<Rightarrow>
             (let (w'', evs') = stop_if (stop_called p) w' in
              case acquisition_loop acq_started ps w'' of
                None \<Rightarrow> None
              | Some (w3, evs3) \<Rightarrow> Some (w3, evs @ evs' @ evs3)))
      else Some (w, []))"

subsection \<open>Clean-up and \<open>run\<close>\<close>

text \<open>
  The \<open>finally\<close> block. \<open>funcs_ok\<close> is \<open>None\<close> when \<open>status_funcs_ok\<close> was never
  assigned; reading it then raises inside the innermost \<open>try\<close>, which swallows
  everything.
\<close>

definition current_mca_enabled :: "worker_env \<Rightarrow> bool option \<Rightarrow> bool" where
  "current_mca_enabled env funcs_ok =
     (case funcs_ok of
        None \<Rightarrow> True
      | Some False \<Rightarrow> True
      | Some True \<Rightarrow>
          (case final_status env of
             Inl e \<Rightarrow> True
           | Inr st \<Rightarrow> (case raw_byte st 35 of Inl e \<Rightarrow> True | Inr b \<Rightarrow> mca_enabled_flag b \<noteq> 0)))"

definition clean_up ::
  "worker_env \<Rightarrow> bool \<Rightarrow> bool option \<Rightarrow> DP5AcquisitionWorker \<Rightarrow> DP5AcquisitionWorker \<times> signal list" where
  "clean_up env acq_started funcs_ok w =
     (let evs =
        (if acq_started \<and> DP5_API_LOADED env \<and> has_DisableMCA (funcs env) then
           if current_mca_enabled env funcs_ok then
             (case DisableMCA env of
                Some e \<Rightarrow> [message ''Disabling MCA...'',
                           error (''Error disabling MCA on exit: '' @ str_exn e)]
              | None \<Rightarrow> [message ''Disabling MCA...'', message ''MCA Disabled.''])
           else []
         else [])
      in (w\<lparr>running := False\<rparr>, evs @ [finished]))"

text \<open>
  Steps 1 to 4 together: the exception that reaches the outermost handler (if any),
  \<open>acq_started\<close> as the loop will read it, and the events.
\<close>

definition set_up ::
  "worker_env \<Rightarrow> DP5AcquisitionWorker \<Rightarrow> exn option \<times> bool \<times> signal list" where
  "set_up env w =
     (case send_configuration env w of
        (Some setup_e, config_ok, evs1) \<Rightarrow> (Some setup_e, False, evs1)
      | (None, config_ok, evs1) \<Rightarrow>
          (let (config_ok2, evs2) = send_preset env w config_ok;
               (config_ok3, acq_started, evs3) = enable_mca env config_ok2;
               (acq_started', evs4) = loop_checks env acq_started
           in (None, acq_started', evs1 @ evs2 @ evs3 @ evs4)))"

definition run ::
  "worker_env \<Rightarrow> poll list \<Rightarrow> DP5AcquisitionWorker \<Rightarrow> (DP5AcquisitionWorker \<times> signal list) option" where
  "run env polls w =
     (if \<not> DP5_API_LOADED env
      then Some (w, [error ''DP5 API not loaded. Cannot start worker.'', finished])
      else if spectrum_buffer w = None \<or> status_buffer w = None
      then Some (w, [error ''DP5 API buffers not allocated. Cannot start worker.'', finished])
      else
        (let w1 = w\<lparr>running := True\<rparr> in
         case set_up env w1 of
           (Some setup_e, acq_started, evs1) \<Rightarrow>
             (let (w', evs') = clean_up env False None w1 in
              Some (w', evs1 @ [error (''DP5 Acquisition setup error: '' @ str_exn setup_e)] @ evs'))
         | (None, acq_started, evs1) \<Rightarrow>
             (let (w2, evs2) = stop_if (stop_during_setup env) w1
              in case acquisition_loop acq_started polls w2 of
                   None \<Rightarrow> None
                 | Some (w3, evs3) \<Rightarrow>
                     (let (w4, evs4) = clean_up env acq_started (Some (status_funcs_ok env)) w3
                      in Some (w4, evs1 @ evs2 @ evs3 @ evs4)))))"

text \<open>
  A poll that ends the loop whatever came before: \<open>stop\<close> arrives, the status shows
  the analyzer disabled, or an API call raises an \<open>AttributeError\<close>.
\<close>

definition ends_loop :: "poll \<Rightarrow> bool" where
  "ends_loop p =
     (stop_called p \<or>
      (case GetDppStatus p of
         Some e \<Rightarrow> kind e = AttributeError
       | None \<Rightarrow>
           (case DppStatusToStruct p of
              Inl e \<Rightarrow> kind e = AttributeError
            | Inr st \<Rightarrow>
                (case raw_byte st 35 of
                   Inl e \<Rightarrow> False
                 | Inr b \<Rightarrow>
                     mca_enabled_flag b = 0 \<or>
                     (case RequestSpectrumData p of
                        Inl e \<Rightarrow> kind e = AttributeError
                      | Inr r \<Rightarrow> False)))))"


subsection \<open>Notions for stating what a run publishes\<close>

fun is_spectrum :: "signal \<Rightarrow> bool" where
  "is_spectrum (spectrum_ready d) = True"
| "is_spectrum _ = False"

definition published :: "signal list \<Rightarrow> nat" where
  "published evs = length (filter is_spectrum evs)"

subsection \<open>Concrete device answers\<close>

definition example_funcs :: dp5_api_functions where
  "example_funcs =
     \<lparr>has_SendConfigFileToDpp = True, has_send_ascii_command = True, has_EnableMCA = True,
      has_GetDppStatus = True, has_DppStatusToStruct = True, has_RequestSpectrumData = True,
      has_DisableMCA = True\<rparr>"

definition example_os :: os_env where
  "example_os =
     \<lparr>path_exists = (\<lambda>p. Inr True), path_isdir = (\<lambda>p. True), path_basename = (\<lambda>p. p),
      path_dirname = (\<lambda>p. p), path_join = (\<lambda>a b. a @ ''/'' @ b), strftime = ''20240101_120000'',
      str_float = (\<lambda>x. ''10.0''), fmt_1f = (\<lambda>x. ''10.0'')\<rparr>"

definition example_worker_env :: worker_env where
  "example_worker_env =
     \<lparr>DP5_API_LOADED = True, funcs = example_funcs, os = example_os, alloc_Spec = None,
      alloc_STATUS = None, SendConfigFileToDpp = (\<lambda>p. Inr 1), send_ascii_command = (\<lambda>c. Inr True),
      EnableMCA = None, stop_during_setup = False, final_status = Inr new_STATUS, DisableMCA = None\<rparr>"

text \<open>Byte 35 is \<open>0x20\<close> in the first status (bit 5 set) and \<open>0\<close> in the second.\<close>

definition status_enabled :: DP5_DP4_FORMAT_STATUS where
  "status_enabled =
     \<lparr>RAW = replicate 35 0 @ [32] @ replicate 28 0, SerialNumber = 7, AccumulationTime = 1, RealTime = 1\<rparr>"

definition status_disabled :: DP5_DP4_FORMAT_STATUS where
  "status_disabled = \<lparr>RAW = replicate 64 0, SerialNumber = 7, AccumulationTime = 2, RealTime = 2\<rparr>"

definition spec_three :: Spec where
  "spec_three = \<lparr>DATA = [1, 2, 3, 4], CHANNELS = 3\<rparr>"

definition spec_empty :: Spec where
  "spec_empty = \<lparr>DATA = [1, 2, 3, 4], CHANNELS = 0\<rparr>"

definition poll_enabled :: poll where
  "poll_enabled =
     \<lparr>GetDppStatus = None, DppStatusToStruct = Inr status_enabled,
      RequestSpectrumData = Inr (spec_three, status_enabled), stop_called = False\<rparr>"

definition poll_disabled :: poll where
  "poll_disabled =
     \<lparr>GetDppStatus = None, DppStatusToStruct = Inr status_disabled,
      RequestSpectrumData = Inr (spec_three, status_disabled), stop_called = False\<rparr>"

text \<open>The analyzer has stopped and the device reports a channel count of zero.\<close>

definition poll_disabled_empty :: poll where
  "poll_disabled_empty =
     \<lparr>GetDppStatus = None, DppStatusToStruct = Inr status_disabled,
      RequestSpectrumData = Inr (spec_empty, status_disabled), stop_called = False\<rparr>"

definition example_worker :: DP5AcquisitionWorker where
  "example_worker = fst (init example_worker_env None (Some 10))"

definition polling_worker :: DP5AcquisitionWorker where
  "polling_worker = example_worker\<lparr>running := True\<rparr>"

section \<open>The application: two controllers, two managers, one trace\<close>

text \<open>
  The main window builds one \<open>DP5Controller\<close>, one \<open>MiniXController\<close>, then a
  \<open>SequenceManager\<close> and a \<open>SingleAcquisitionManager\<close> on them. Each manager
  connects its slot \<open>_handle_dp5_acq_state_change\<close> to the DP5 controller's signal
  \<open>acquisition_state_changed\<close> in its constructor, if it was given a controller; the
  objects live in one thread, so an emission runs the slots at once, the sequence
  manager's first. The worker lives in another thread: what it emits reaches the
  controller's slots later, as calls of the \<open>handle_worker\<close> functions below.

  The slots of the main window itself are not part of the model, with one exception:
  what it does on \<open>request_safe_hv_on\<close> is an input (\<open>safe_hv_on\<close>). Events that
  Qt would process inside \<open>_wait_with_events\<close> are taken to arrive after the method
  that waits has returned.
\<close>

record SequenceManager =
  sm_minix_ctrl :: bool
  sm_dp5_ctrl :: bool
  sm_running :: bool
  sm_error_reason :: string
  sm_current_rep :: int
  sm_total_reps :: int
  sm_duration :: real
  sm_minix_continuous :: bool
  sm_save_folder :: string
  sm_pause_ms :: int

record SingleAcquisitionManager =
  sa_dp5_ctrl :: bool
  sa_running :: bool
  sa_error_reason :: string
  sa_duration :: real
  sa_save_filepath :: string
  sa_spectrum_saved_successfully :: bool

text \<open>
  \<open>sm_minix_ctrl\<close>, \<open>sm_dp5_ctrl\<close> and \<open>sa_dp5_ctrl\<close> say whether the manager
  holds a controller (the reference is not \<open>None\<close>). \<open>spawned\<close> counts the
  worker/thread pairs started so far; a pair is named by its number.
\<close>

record world =
  dp5_ctrl :: DP5Controller
  minix_ctrl :: MiniXController
  sequence_manager :: SequenceManager
  single_acq_manager :: SingleAcquisitionManager
  spawned :: nat
  trace :: "event list"

datatype hv_reply = HvNotHandled | HvSwitchedOn | HvRefused string

text \<open>
  What the outside answers while one method runs: the operating system, whether the
  worker class was imported, the MiniX API's \<open>send_command\<close> (it raises or sends),
  the constructors and the save function of the DP5 API, the state of the previous
  thread and the start of a new one, and the main window's reaction to
  \<open>request_safe_hv_on\<close>.
\<close>

record app_env =
  sys :: os_env
  worker_class :: bool
  send_command :: "MiniXCommands \<Rightarrow> exn option"
  api_Spec :: "exn option"
  api_SpecFile :: "exn option"
  api_SaveMCADataToFile :: "string \<Rightarrow> exn option"
  thread_isRunning :: bool
  thread_wait :: bool
  thread_start :: "exn option"
  safe_hv_on :: hv_reply

definition emit :: "event list \<Rightarrow> world \<Rightarrow> world" where
  "emit evs w = w\<lparr>trace := trace w @ evs\<rparr>"

text \<open>What an operation has added to the trace.\<close>

definition emitted :: "world \<Rightarrow> world \<Rightarrow> event list" where
  "emitted w w' = drop (length (trace w)) (trace w')"

subsection \<open>The controllers inside the application\<close>

definition dp5_report_error :: "string \<Rightarrow> world \<Rightarrow> world" where
  "dp5_report_error m w =
     (let (c, evs) = report_error DP5 m (dp5_ctrl w) in emit evs (w\<lparr>dp5_ctrl := c\<rparr>))"

definition dp5_post_status_message :: "string \<Rightarrow> world \<Rightarrow> world" where
  "dp5_post_status_message m w = emit (post_status_message DP5 m) w"

definition minix_report_error :: "string \<Rightarrow> world \<Rightarrow> world" where
  "minix_report_error m w =
     (let (c, evs) = report_error MiniX m (minix_ctrl w) in emit evs (w\<lparr>minix_ctrl := c\<rparr>))"

definition minix_post_status_message :: "string \<Rightarrow> world \<Rightarrow> world" where
  "minix_post_status_message m w = emit (post_status_message MiniX m) w"

text \<open>The exceptions that \<open>set_hv_on\<close> and \<open>set_hv_off\<close> catch.\<close>

definition minix_caught :: "exn \<Rightarrow> bool" where
  "minix_caught e =
     (kind e \<in> {ControllerNotRunningError, APICommandError, StatusError, TypeError, ValueError})"

text \<open>
  \<open>MiniXController.set_hv_off\<close>. The first component is an exception that the method
  lets through. The stored \<open>hv_on\<close> is not touched: only polling updates it.
\<close>

definition MiniXController_set_hv_off :: "app_env \<Rightarrow> world \<Rightarrow> exn option \<times> world" where
  "MiniXController_set_hv_off env w =
     (if \<not> api (minix_ctrl w) then (None, minix_report_error ''MiniX API not loaded.'' w)
      else if \<not> is_controller_app_running (minix_ctrl w)
      then (None, minix_report_error ''Controller not running.'' w)
      else
        (let w1 = minix_post_status_message ''Attempting to turn HV OFF...'' w in
         case send_command env mxcHVOff of
           None \<Rightarrow> (None, minix_post_status_message ''HV OFF command sent.''
                             (emit [SendMiniXCommand mxcHVOff] w1))
         | Some e \<Rightarrow>
             if minix_caught e
             then (None, minix_report_error (''Failed to turn HV OFF: '' @ str_exn e) w1)
             else (Some e, w1)))"

definition MiniXController_set_hv_on :: "app_env \<Rightarrow> world \<Rightarrow> exn option \<times> world" where
  "MiniXController_set_hv_on env w =
     (if \<not> api (minix_ctrl w) then (None, minix_report_error ''MiniX API not loaded.'' w)
      else if \<not> is_connected (minix_ctrl w)
      then (None, minix_report_error ''MiniX not connected.'' w)
      else
        (let w1 = minix_post_status_message ''Attempting to turn HV ON...'' w in
         case send_command env mxcHVOn of
           None \<Rightarrow> (None, minix_post_status_message ''HV ON command sent.''
                             (emit [SendMiniXCommand mxcHVOn] w1))
         | Some e \<Rightarrow>
             if minix_caught e
             then (None, minix_report_error (''Failed to turn HV ON: '' @ str_exn e) w1)
             else (Some e, w1)))"

text \<open>
  \<open>s.encode('ascii')\<close>; the text of the exception is abbreviated.
\<close>

definition encode_ascii :: "string \<Rightarrow> exn + string" where
  "encode_ascii s =
     (if is_ascii s then Inr s
      else Inl (Exn UnicodeEncodeError ''ascii codec cannot encode character''))"

text \<open>
  The \<open>try\<close> block of \<open>save_last_spectrum\<close>: an exception, or \<open>None\<close> when the data
  are longer than the buffer (the method then returns what \<open>_report_error\<close> returns), or
  the two structures handed to \<open>SaveMCADataToFile\<close>.
\<close>

definition save_try ::
  "app_env \<Rightarrow> string \<Rightarrow> string \<Rightarrow> string \<Rightarrow> 32 word list \<Rightarrow> DP5_DP4_FORMAT_STATUS option
     \<Rightarrow> exn + (Spec \<times> SpecFile) option" where
  "save_try env filepath description tag data status =
     (case api_Spec env of
        Some e \<Rightarrow> Inl e
      | None \<Rightarrow>
     (let num_channels = int (length data) in
      if num_channels > MAX_BUFFER_DATA then Inr None
      else
        (let spec_struct =
               \<lparr>DATA = data @ replicate (nat MAX_BUFFER_DATA - length data) 0,
                CHANNELS = word_of_int num_channels\<rparr> in
         case api_SpecFile env of
           Some e \<Rightarrow> Inl e
         | None \<Rightarrow>
        (case encode_ascii tag of
           Inl e \<Rightarrow> Inl e
         | Inr tag_bytes \<Rightarrow>
        (case encode_ascii description of
           Inl e \<Rightarrow> Inl e
         | Inr description_bytes \<Rightarrow>
        (let spec_file_info =
               \<lparr>strTag = take (MAX_TAG_SIZE - 1) tag_bytes,
                strDescription = take (MAX_DESCRIPTION_SIZE - 1) description_bytes,
                sf_AccumulationTime = (case status of Some st \<Rightarrow> AccumulationTime st | None \<Rightarrow> 0),
                sf_RealTime = (case status of Some st \<Rightarrow> RealTime st | None \<Rightarrow> 0),
                sf_SerialNumber = (case status of Some st \<Rightarrow> SerialNumber st | None \<Rightarrow> 0)\<rparr> in
         case encode_ascii filepath of
           Inl e \<Rightarrow> Inl e
         | Inr filepath_bytes \<Rightarrow>
        (case api_SaveMCADataToFile env filepath of
           Some e \<Rightarrow> Inl e
         | None \<Rightarrow> Inr (Some (spec_struct, spec_file_info)))))))))"

text \<open>
  \<open>DP5Controller.save_last_spectrum\<close>. The result is an exception that leaves the
  method, or the returned value. A file is written exactly where \<open>SaveMCADataToFile\<close>
  appears in the trace.
\<close>

definition DP5Controller_save_last_spectrum ::
  "app_env \<Rightarrow> string \<Rightarrow> string \<Rightarrow> string \<Rightarrow> world \<Rightarrow> (exn + pyret) \<times> world" where
  "DP5Controller_save_last_spectrum env filepath description tag w =
     (if \<not> api (dp5_ctrl w) \<or> \<not> has_SaveMCADataToFile (dp5_ctrl w)
      then (Inr PyNone,
            dp5_report_error ''Spectrum saving function (SaveMCADataToFile) not available in API.'' w)
      else
        (case last_spectrum_data (dp5_ctrl w) of
           None \<Rightarrow> (Inr PyNone, dp5_report_error ''No spectrum data acquired or cached yet to save.'' w)
         | Some data \<Rightarrow>
             (let w1 = dp5_post_status_message
                         (''Saving spectrum to '' @ path_basename (sys env) filepath @ ''...'') w in
              case save_try env filepath description tag data (last_status_data (dp5_ctrl w1)) of
                Inl e \<Rightarrow>
                  if kind e = OverflowError
                  then (Inr (PyBool False),
                        dp5_report_error
                          (''Error populating file info (string too long?): '' @ str_exn e) w1)
                  else (Inr (PyBool False),
                        dp5_report_error
                          (''Error saving spectrum file '' @ [CHR 0x27] @ filepath @ [CHR 0x27] @ '': ''
                             @ str_exn e) w1)
              | Inr None \<Rightarrow>
                  (Inr PyNone,
                   dp5_report_error
                     (''Spectrum data length ('' @ str_int (int (length data))
                        @ '') exceeds max buffer size ('' @ str_int MAX_BUFFER_DATA @ '').'') w1)
              | Inr (Some (spec_struct, spec_file_info)) \<Rightarrow>
                  (Inr (PyBool True),
                   dp5_post_status_message (''Spectrum saved: '' @ path_basename (sys env) filepath)
                     (emit [SaveMCADataToFile filepath spec_struct spec_file_info] w1)))))"

definition DP5Controller_clear_thread_worker_refs :: "world \<Rightarrow> world" where
  "DP5Controller_clear_thread_worker_refs w =
     w\<lparr>dp5_ctrl := (dp5_ctrl w)\<lparr>worker := None, thread := None\<rparr>\<rparr>"

definition DP5Controller_handle_worker_status :: "DP5_DP4_FORMAT_STATUS \<Rightarrow> world \<Rightarrow> world" where
  "DP5Controller_handle_worker_status status_struct w =
     emit [status_updated status_struct]
       (w\<lparr>dp5_ctrl := (dp5_ctrl w)\<lparr>last_status_data := Some status_struct\<rparr>\<rparr>)"

definition DP5Controller_handle_worker_spectrum :: "32 word list \<Rightarrow> world \<Rightarrow> world" where
  "DP5Controller_handle_worker_spectrum spectrum_array w =
     emit [spectrum_updated spectrum_array]
       (w\<lparr>dp5_ctrl := (dp5_ctrl w)\<lparr>last_spectrum_data := Some spectrum_array\<rparr>\<rparr>)"

definition DP5Controller_handle_worker_message :: "string \<Rightarrow> world \<Rightarrow> world" where
  "DP5Controller_handle_worker_message m w = dp5_post_status_message (''DP5 Worker: '' @ m) w"

subsection \<open>logic/single\_acquistion\_manager.py: saving, finalizing, the slot\<close>

definition sa_update ::
  "(SingleAcquisitionManager \<Rightarrow> SingleAcquisitionManager) \<Rightarrow> world \<Rightarrow> world" where
  "sa_update f w = w\<lparr>single_acq_manager := f (single_acq_manager w)\<rparr>"

definition sa_fail :: "string \<Rightarrow> string \<Rightarrow> world \<Rightarrow> world" where
  \<comment> \<open>the three statements shared by the failing branches of \<open>_save_spectrum\<close>\<close>
  "sa_fail prefix reason w =
     emit [acquisition_status_update (prefix @ reason)]
       (sa_update (\<lambda>a. a\<lparr>sa_error_reason := reason\<rparr>) w)"

definition SingleAcquisitionManager_save_spectrum :: "app_env \<Rightarrow> world \<Rightarrow> bool \<times> world" where
  "SingleAcquisitionManager_save_spectrum env w =
     (let a = single_acq_manager w in
      if sa_save_filepath a = []
      then (False, sa_fail ''Save Error: '' ''Save filepath not set before trying to save.'' w)
      else if \<not> sa_dp5_ctrl a
      then (False, sa_fail ''Save Error: '' ''DP5 Controller missing for saving.'' w)
      else
        (let w1 = emit [acquisition_status_update
                          (''Saving spectrum to '' @ path_basename (sys env) (sa_save_filepath a) @ ''...'')] w;
             description = ''Single acquisition, '' @ str_float (sys env) (sa_duration a) @ ''s, ''
                             @ strftime (sys env)
         in case DP5Controller_save_last_spectrum env (sa_save_filepath a) description ''SGLPYXRF'' w1 of
              (Inl e, w2) \<Rightarrow>
                (False, sa_fail ''Save Error: '' (''Exception during spectrum save: '' @ str_exn e) w2)
            | (Inr save_success, w2) \<Rightarrow>
                if truthy save_success
                then (True, emit [acquisition_status_update
                                    (''Spectrum saved: '' @ path_basename (sys env) (sa_save_filepath a))] w2)
                else (False, sa_fail ''Save Failed: '' ''DP5 controller reported failure saving spectrum.'' w2)))"

definition SingleAcquisitionManager_finalize :: "world \<Rightarrow> world" where
  "SingleAcquisitionManager_finalize w =
     (let a = single_acq_manager w in
      if \<not> sa_running a then w
      else
        (let was_running = sa_running a;
             w1 = sa_update (\<lambda>a. a\<lparr>sa_running := False\<rparr>) w;
             reason = sa_error_reason a;
             w2 =
               (if reason \<noteq> [] then
                  emit ((if was_running
                         then [acquisition_aborted reason,
                               acquisition_status_update (''Acquisition FAILED: '' @ reason)]
                         else []) @ [acquisition_finished False]) w1
                else if was_running \<and> sa_spectrum_saved_successfully a then
                  emit [acquisition_status_update ''Acquisition and save completed successfully.'',
                        acquisition_finished True] w1
                else if was_running \<and> \<not> sa_spectrum_saved_successfully a then
                  emit [acquisition_status_update
                          (''Acquisition completed, but save FAILED: ''
                             @ (if reason \<noteq> [] then reason else ''Unknown save error'')),
                        acquisition_aborted (if reason \<noteq> [] then reason else ''Spectrum save failed.''),
                        acquisition_finished False] w1
                else w1)
         in sa_update (\<lambda>a. a\<lparr>sa_error_reason := [], sa_spectrum_saved_successfully := False\<rparr>) w2))"

definition SingleAcquisitionManager_handle_dp5_acq_state_change ::
  "app_env \<Rightarrow> bool \<Rightarrow> world \<Rightarrow> world" where
  "SingleAcquisitionManager_handle_dp5_acq_state_change env acquiring w =
     (let a = single_acq_manager w in
      if sa_running a \<and> sa_error_reason a = [] \<and> \<not> acquiring then
        (let w1 = emit [acquisition_status_update
                          ''DP5 acquisition finished. Attempting to save spectrum...''] w;
             (save_success, w2) = SingleAcquisitionManager_save_spectrum env w1;
             w3 = sa_update (\<lambda>a. a\<lparr>sa_spectrum_saved_successfully := save_success\<rparr>) w2
         in SingleAcquisitionManager_finalize w3)
      else w)"

subsection \<open>logic/sequence\_manager.py: finalizing\<close>

definition sm_update :: "(SequenceManager \<Rightarrow> SequenceManager) \<Rightarrow> world \<Rightarrow> world" where
  "sm_update f w = w\<lparr>sequence_manager := f (sequence_manager w)\<rparr>"

text \<open>
  \<open>_finalize\<close>. An exception from \<open>set_hv_off\<close> is caught and printed here.
\<close>

definition SequenceManager_finalize :: "app_env \<Rightarrow> world \<Rightarrow> world" where
  "SequenceManager_finalize env w =
     (let s = sequence_manager w in
      if \<not> sm_running s \<and> sm_error_reason s = [] then w
      else
        (let was_running = sm_running s;
             w1 = sm_update (\<lambda>s. s\<lparr>sm_running := False\<rparr>) w;
             w2 = (if sm_minix_continuous s \<and> was_running
                   then (if sm_minix_ctrl s then snd (MiniXController_set_hv_off env w1) else w1)
                   else w1);
             w3 = (if sm_error_reason s \<noteq> [] then w2
                   else if was_running then
                     (let final_reps = (if sm_current_rep s > sm_total_reps s
                                        then sm_current_rep s - 1 else sm_current_rep s)
                      in emit [sequence_status_update
                                 (''Sequence finished ('' @ str_int final_reps @ ''/''
                                    @ str_int (sm_total_reps s) @ '' repetitions).''),
                               sequence_finished final_reps] w2)
                   else w2)
         in sm_update (\<lambda>s. s\<lparr>sm_error_reason := []\<rparr>) w3))"

subsection \<open>The slot of the sequence manager, aborting, and the controller's state change\<close>

text \<open>
  \<open>DP5Controller._set_acquiring\<close> emits \<open>acquisition_state_changed\<close>, which runs the
  managers' slots; the sequence manager's slot may abort the sequence;
  \<open>_abort_sequence\<close> calls \<open>DP5Controller.stop_acquisition\<close>, which, when no worker
  is held, calls \<open>_handle_worker_finished\<close> and so \<open>_set_acquiring\<close> again. The four
  functions are therefore defined together. An exception that leaves \<open>set_hv_off\<close> in
  the slot ends the slot there.
\<close>

function
  DP5Controller_set_acquiring :: "app_env \<Rightarrow> bool \<Rightarrow> world \<Rightarrow> world" and
  DP5Controller_stop_acquisition :: "app_env \<Rightarrow> world \<Rightarrow> world" and
  SequenceManager_abort_sequence :: "app_env \<Rightarrow> string \<Rightarrow> world \<Rightarrow> world" and
  SequenceManager_handle_dp5_acq_state_change :: "app_env \<Rightarrow> bool \<Rightarrow> world \<Rightarrow> world"
where
  "DP5Controller_set_acquiring env acquiring_state w =
     (if is_acquiring (dp5_ctrl w) \<noteq> acquiring_state then
        (let w1 = emit (snd (set_acquiring acquiring_state (dp5_ctrl w)))
                    (w\<lparr>dp5_ctrl := fst (set_acquiring acquiring_state (dp5_ctrl w))\<rparr>);
             w2 = (if sm_dp5_ctrl (sequence_manager w1)
                   then SequenceManager_handle_dp5_acq_state_change env acquiring_state w1 else w1)
         in if sa_dp5_ctrl (single_acq_manager w2)
            then SingleAcquisitionManager_handle_dp5_acq_state_change env acquiring_state w2 else w2)
      else w)"
| "DP5Controller_stop_acquisition env w =
     (if \<not> is_acquiring (dp5_ctrl w) then w
      else
        (let w1 = dp5_post_status_message ''Requesting DP5 acquisition stop...'' w in
         case worker (dp5_ctrl w1) of
           Some k \<Rightarrow> emit [worker_stop k] w1
         | None \<Rightarrow> DP5Controller_set_acquiring env False w1))"
| "SequenceManager_abort_sequence env reason w =
     (if \<not> sm_running (sequence_manager w) then w
      else
        (let w1 = emit [sequence_status_update (''Sequence ABORTED: '' @ reason), sequence_aborted reason]
                    (sm_update (\<lambda>s. s\<lparr>sm_error_reason := reason\<rparr>) w);
             w2 = (if sm_dp5_ctrl (sequence_manager w1) \<and> is_acquiring (dp5_ctrl w1)
                   then DP5Controller_stop_acquisition env w1 else w1)
         in SequenceManager_finalize env w2))"
| "SequenceManager_handle_dp5_acq_state_change env acquiring w =
     (let s = sequence_manager w in
      if sm_running s \<and> sm_error_reason s = [] \<and> \<not> acquiring then
        (let w1 = emit [sequence_step_finished (sm_current_rep s) (sm_total_reps s)] w;
             rep = str_int (sm_current_rep s) in
         if sm_save_folder s = [] \<or> \<not> path_isdir (sys env) (sm_save_folder s)
         then SequenceManager_abort_sequence env
                (''Error saving spectrum for Rep '' @ rep @ '': ''
                   @ ''Save folder disappeared or invalid: '' @ sm_save_folder s) w1
         else
           (let filename = path_join (sys env) (sm_save_folder s)
                             (''spectrum_rep'' @ fmt_03d (sm_current_rep s) @ ''_''
                                @ strftime (sys env) @ ''.mca'');
                w2 = emit [sequence_status_update (''Saving Rep '' @ rep @ '' spectrum...'')] w1 in
            if \<not> sm_dp5_ctrl s
            then SequenceManager_abort_sequence env
                   (''Error saving spectrum for Rep '' @ rep @ '': ''
                      @ ''DP5 Controller missing for saving.'') w2
            else
              (case DP5Controller_save_last_spectrum env filename
                      (''Rep '' @ rep @ ''/'' @ str_int (sm_total_reps s)) ''SEQPYXRF'' w2 of
                 (Inl e, w3) \<Rightarrow>
                   SequenceManager_abort_sequence env
                     (''Error saving spectrum for Rep '' @ rep @ '': '' @ str_exn e) w3
               | (Inr save_success, w3) \<Rightarrow>
                   if \<not> truthy save_success
                   then SequenceManager_abort_sequence env
                          (''Error saving spectrum for Rep '' @ rep @ '': ''
                             @ ''DP5 controller reported failure saving spectrum.'') w3
                   else
                     (let w4 = emit [sequence_status_update (''Rep '' @ rep @ '' spectrum saved.'')] w3 in
                      case (if \<not> sm_minix_continuous s \<and> sm_minix_ctrl s
                            then MiniXController_set_hv_off env w4 else (None, w4)) of
                        (Some e, w5) \<Rightarrow> w5
                      | (None, w5) \<Rightarrow>
                          if sm_current_rep s < sm_total_reps s
                          then emit [sequence_status_update
                                       (''Rep '' @ rep @ '' finished. Pausing...''),
                                     sequence_pausing (sm_pause_ms s), singleShot (sm_pause_ms s)] w5
                          else emit [singleShot 10] w5))))
      else w)"
  by pat_completeness auto

termination
proof -
  have rep: "is_acquiring (dp5_ctrl (dp5_report_error m w)) = is_acquiring (dp5_ctrl w)" for m w
    by (simp add: dp5_report_error_def report_error_def emit_def)
  have post: "is_acquiring (dp5_ctrl (dp5_post_status_message m w)) = is_acquiring (dp5_ctrl w)" for m w
    by (simp add: dp5_post_status_message_def emit_def)
  have em: "dp5_ctrl (emit evs w) = dp5_ctrl w" for evs w
    by (simp add: emit_def)
  have sv: "is_acquiring (dp5_ctrl w') = is_acquiring (dp5_ctrl w)"
    if "(r, w') = DP5Controller_save_last_spectrum env f d t w" for r w' env f d t w
    using that
    by (auto simp: DP5Controller_save_last_spectrum_def Let_def rep post em
             split: if_splits option.splits sum.splits prod.splits)
  show ?thesis
    apply (relation "measure (\<lambda>x. case x of
      Inl (Inl (env, b, w)) \<Rightarrow> (if b then 1 else 4 * (if is_acquiring (dp5_ctrl w) then 1 else 0) + 1)
    | Inl (Inr (env, w)) \<Rightarrow> 4 * (if is_acquiring (dp5_ctrl w) then 1 else 0) + 2
    | Inr (Inl (env, r, w)) \<Rightarrow> 4 * (if is_acquiring (dp5_ctrl w) then 1 else 0) + 3
    | Inr (Inr (env, b, w)) \<Rightarrow> (if b then 0 else 4 * (if is_acquiring (dp5_ctrl w) then 1 else 0) + 4))")
          apply (auto simp: em post set_acquiring_def sm_update_def dest: sv)
    done
qed

declare DP5Controller_set_acquiring.simps [simp del]
declare DP5Controller_stop_acquisition.simps [simp del]
declare SequenceManager_abort_sequence.simps [simp del]
declare SequenceManager_handle_dp5_acq_state_change.simps [simp del]

subsection \<open>controllers/dp5\_controller.py: starting, and the worker's signals\<close>

definition DP5Controller_handle_worker_finished :: "app_env \<Rightarrow> world \<Rightarrow> world" where
  "DP5Controller_handle_worker_finished env w = DP5Controller_set_acquiring env False w"

definition DP5Controller_handle_worker_error :: "app_env \<Rightarrow> string \<Rightarrow> world \<Rightarrow> world" where
  "DP5Controller_handle_worker_error env m w =
     DP5Controller_set_acquiring env False (dp5_report_error (''DP5 Worker Error: '' @ m) w)"

text \<open>
  The test of the previous thread in \<open>start_acquisition\<close>. The boolean says that the
  method returns here.
\<close>

definition previous_thread :: "app_env \<Rightarrow> world \<Rightarrow> bool \<times> world" where
  "previous_thread env w =
     (if thread (dp5_ctrl w) \<noteq> None \<and> thread_isRunning env then
        (let w1 = DP5Controller_stop_acquisition env w in
         if \<not> thread_wait env
         then (True, dp5_report_error ''Could not stop previous thread.''
                       (DP5Controller_clear_thread_worker_refs w1))
         else (False, w1))
      else if thread (dp5_ctrl w) \<noteq> None \<or> worker (dp5_ctrl w) \<noteq> None
      then (False, DP5Controller_clear_thread_worker_refs w)
      else (False, w))"

text \<open>
  The \<open>try\<close> block of \<open>start_acquisition\<close>: a thread and a worker are created, wired
  and started, or an exception is raised on the way.
\<close>

definition spawn :: "app_env \<Rightarrow> real option \<Rightarrow> world \<Rightarrow> world" where
  "spawn env preset w =
     (case thread_start env of
        None \<Rightarrow>
          emit [thread_started (spawned w) (last_config_file (dp5_ctrl w)) preset]
            (w\<lparr>dp5_ctrl := (dp5_ctrl w)\<lparr>thread := Some (spawned w), worker := Some (spawned w)\<rparr>,
               spawned := Suc (spawned w)\<rparr>)
      | Some e \<Rightarrow>
          DP5Controller_clear_thread_worker_refs
            (DP5Controller_set_acquiring env False
               (dp5_report_error (''Failed start DP5 acq thread: '' @ str_exn e) w)))"

definition DP5Controller_start_acquisition :: "app_env \<Rightarrow> real option \<Rightarrow> world \<Rightarrow> world" where
  "DP5Controller_start_acquisition env preset w =
     (if \<not> api (dp5_ctrl w) then dp5_report_error ''DP5 API not loaded.'' w
      else if \<not> worker_class env then dp5_report_error ''DP5 Worker class not found.'' w
      else if \<not> is_connected (dp5_ctrl w) then dp5_report_error ''Connect DP5 first.'' w
      else if is_acquiring (dp5_ctrl w) then dp5_post_status_message ''DP5 acq already running.'' w
      else
        (case previous_thread env w of
           (True, w1) \<Rightarrow> w1
         | (False, w1) \<Rightarrow>
             (let w2 = dp5_post_status_message ''Starting DP5 acquisition...'' w1;
                  w3 = (case preset of
                          None \<Rightarrow> w2
                        | Some t \<Rightarrow>
                            if t \<noteq> 0 \<and> t > 0
                            then dp5_post_status_message
                                   (''Preset Time: '' @ fmt_1f (sys env) t @ '' s'') w2
                            else w2);
                  w4 = DP5Controller_set_acquiring env True w3
              in spawn env preset w4)))"

subsection \<open>logic/single\_acquistion\_manager.py: starting and aborting\<close>

definition SingleAcquisitionManager_abort_acquisition :: "app_env \<Rightarrow> string \<Rightarrow> world \<Rightarrow> world" where
  "SingleAcquisitionManager_abort_acquisition env reason w =
     (if \<not> sa_running (single_acq_manager w) then w
      else
        (let w1 = emit [acquisition_status_update (''Acquisition ABORTED: '' @ reason),
                        acquisition_aborted reason]
                    (sa_update (\<lambda>a. a\<lparr>sa_error_reason := reason\<rparr>) w) in
         if sa_dp5_ctrl (single_acq_manager w1) \<and> is_acquiring (dp5_ctrl w1) then
           (let w2 = DP5Controller_stop_acquisition env w1 in
            if \<not> is_acquiring (dp5_ctrl w2) then SingleAcquisitionManager_finalize w2 else w2)
         else SingleAcquisitionManager_finalize w1))"

definition SingleAcquisitionManager_stop_acquisition :: "app_env \<Rightarrow> string \<Rightarrow> world \<Rightarrow> world" where
  "SingleAcquisitionManager_stop_acquisition env reason w =
     (if sa_running (single_acq_manager w)
      then SingleAcquisitionManager_abort_acquisition env reason w else w)"

definition SingleAcquisitionManager_start_acquisition_and_save ::
  "app_env \<Rightarrow> real \<Rightarrow> string \<Rightarrow> world \<Rightarrow> bool \<times> world" where
  "SingleAcquisitionManager_start_acquisition_and_save env duration save_filepath w =
     (if sa_running (single_acq_manager w)
      then (False, emit [acquisition_status_update ''Acquisition already in progress.''] w)
      else
        (let err =
               (if \<not> sa_dp5_ctrl (single_acq_manager w) then Some ''DP5 controller is missing.''
                else if \<not> is_connected (dp5_ctrl w) then Some ''DP5 not connected.''
                else if is_acquiring (dp5_ctrl w) then Some ''DP5 is already acquiring.''
                else if duration \<le> 0
                then Some (''Invalid duration value: '' @ str_float (sys env) duration)
                else if save_filepath = [] then Some ''Invalid save filepath (empty).''
                else if \<not> path_isdir (sys env) (path_dirname (sys env) save_filepath)
                then Some (''Save directory does not exist: '' @ path_dirname (sys env) save_filepath)
                else None) in
         case err of
           Some e \<Rightarrow> (False, emit [acquisition_status_update (''Acquisition Error: '' @ e)] w)
         | None \<Rightarrow>
             (let w1 = sa_update (\<lambda>a. a\<lparr>sa_running := True, sa_error_reason := [],
                                          sa_spectrum_saved_successfully := False,
                                          sa_duration := duration,
                                          sa_save_filepath := save_filepath\<rparr>) w;
                  w2 = emit [acquisition_status_update
                               (''Starting acquisition ('' @ str_float (sys env) duration @ ''s)...''),
                             acquisition_started] w1
              in if \<not> sa_dp5_ctrl (single_acq_manager w2)
                 then (False, SingleAcquisitionManager_abort_acquisition env
                                (''Error starting DP5 acquisition: ''
                                   @ ''DP5 Controller missing at point of acquisition start.'') w2)
                 else (True, DP5Controller_start_acquisition env (Some duration) w2))))"

subsection \<open>logic/sequence\_manager.py: starting, stopping, the next step\<close>

definition SequenceManager_stop_sequence :: "app_env \<Rightarrow> string \<Rightarrow> world \<Rightarrow> world" where
  "SequenceManager_stop_sequence env reason w =
     (if sm_running (sequence_manager w) then SequenceManager_abort_sequence env reason w else w)"

text \<open>
  \<open>self.request_safe_hv_on.emit()\<close> with the main window's slot: it does nothing, or
  calls \<open>set_hv_on\<close> (the user agreed), or calls \<open>stop_sequence\<close> (the source is not
  connected, or the user declined).
\<close>

definition emit_request_safe_hv_on :: "app_env \<Rightarrow> world \<Rightarrow> world" where
  "emit_request_safe_hv_on env w =
     (let w1 = emit [request_safe_hv_on] w in
      case safe_hv_on env of
        HvNotHandled \<Rightarrow> w1
      | HvSwitchedOn \<Rightarrow> snd (MiniXController_set_hv_on env w1)
      | HvRefused reason \<Rightarrow> SequenceManager_stop_sequence env reason w1)"

definition SequenceManager_run_next_step :: "app_env \<Rightarrow> world \<Rightarrow> world" where
  "SequenceManager_run_next_step env w =
     (if \<not> sm_running (sequence_manager w) then SequenceManager_finalize env w
      else if sm_error_reason (sequence_manager w) \<noteq> [] then SequenceManager_finalize env w
      else
        (let w1 = sm_update (\<lambda>s. s\<lparr>sm_current_rep := sm_current_rep s + 1\<rparr>) w;
             s = sequence_manager w1 in
         if sm_current_rep s > sm_total_reps s then SequenceManager_finalize env w1
         else
           (let w2 = emit [sequence_status_update
                             (''Running Rep '' @ str_int (sm_current_rep s) @ ''/''
                                @ str_int (sm_total_reps s) @ '' (''
                                @ str_float (sys env) (sm_duration s) @ ''s)...''),
                           sequence_step_starting (sm_current_rep s) (sm_total_reps s)] w1;
                w3 = (if \<not> sm_minix_continuous s then emit_request_safe_hv_on env w2 else w2)
            in if sm_dp5_ctrl s then
                 if \<not> is_connected (dp5_ctrl w3)
                 then SequenceManager_abort_sequence env
                        (''Error starting Rep '' @ str_int (sm_current_rep (sequence_manager w3)) @ '': ''
                           @ ''DP5 disconnected before starting repetition.'') w3
                 else DP5Controller_start_acquisition env (Some (sm_duration s)) w3
               else SequenceManager_abort_sequence env
                      (''Error starting Rep '' @ str_int (sm_current_rep (sequence_manager w3)) @ '': ''
                         @ ''DP5 Controller missing.'') w3)))"

text \<open>
  The validation of \<open>start_sequence\<close>. The repetitions are an integer and the duration
  a number by their types here, so the two \<open>isinstance\<close> tests hold.
\<close>

definition start_sequence_error ::
  "app_env \<Rightarrow> int \<Rightarrow> real \<Rightarrow> string \<Rightarrow> world \<Rightarrow> string option" where
  "start_sequence_error env repetitions duration save_folder w =
     (if \<not> sm_minix_ctrl (sequence_manager w) \<or> \<not> is_connected (minix_ctrl w)
      then Some ''MiniX not connected.''
      else if \<not> sm_dp5_ctrl (sequence_manager w) \<or> \<not> is_connected (dp5_ctrl w)
      then Some ''DP5 not connected.''
      else if is_acquiring (dp5_ctrl w) then Some ''DP5 is already acquiring.''
      else if repetitions \<le> 0 then Some (''Invalid repetitions value: '' @ str_int repetitions)
      else if duration \<le> 0 then Some (''Invalid duration value: '' @ str_float (sys env) duration)
      else if save_folder = [] \<or> \<not> path_isdir (sys env) save_folder
      then Some (''Invalid or non-existent save folder: '' @ save_folder)
      else None)"

definition SequenceManager_start_sequence ::
  "app_env \<Rightarrow> int \<Rightarrow> real \<Rightarrow> bool \<Rightarrow> string \<Rightarrow> world \<Rightarrow> bool \<times> world" where
  "SequenceManager_start_sequence env repetitions duration minix_continuous save_folder w =
     (if sm_running (sequence_manager w)
      then (False, emit [sequence_status_update ''Sequence already running.''] w)
      else
        (let w1 = (case start_sequence_error env repetitions duration save_folder w of
                     None \<Rightarrow> w
                   | Some err \<Rightarrow>
                       if err \<noteq> []
                       then emit [sequence_status_update (''Sequence Error: '' @ err),
                                  sequence_aborted err] w
                       else w);
             w2 = sm_update (\<lambda>s. s\<lparr>sm_running := True, sm_error_reason := [], sm_current_rep := 0,
                                     sm_total_reps := repetitions, sm_duration := duration,
                                     sm_minix_continuous := minix_continuous,
                                     sm_save_folder := save_folder\<rparr>) w1;
             w3 = emit [sequence_status_update
                          (''Starting sequence: '' @ str_int repetitions @ '' reps...''),
                        sequence_started] w2;
             w4 = (if minix_continuous then emit_request_safe_hv_on env w3 else w3)
         in (True, emit [singleShot 50] w4)))"

subsection \<open>A concrete application state\<close>

definition example_env :: app_env where
  "example_env =
     \<lparr>sys = example_os, worker_class = True, send_command = (\<lambda>c. None), api_Spec = None,
      api_SpecFile = None, api_SaveMCADataToFile = (\<lambda>p. None), thread_isRunning = False,
      thread_wait = True, thread_start = None, safe_hv_on = HvSwitchedOn\<rparr>"

definition example_dp5 :: DP5Controller where
  "example_dp5 =
     \<lparr>api = True, is_connected = True, last_error = [], has_SaveMCADataToFile = True,
      is_acquiring = False, last_config_file = None, worker = None, thread = None,
      last_spectrum_data = None, last_status_data = None\<rparr>"

definition example_minix :: MiniXController where
  "example_minix =
     \<lparr>api = True, is_connected = True, last_error = [], is_controller_app_running = True,
      hv_on = False\<rparr>"

text \<open>The managers as their constructors leave them.\<close>

definition new_SequenceManager :: SequenceManager where
  "new_SequenceManager =
     \<lparr>sm_minix_ctrl = True, sm_dp5_ctrl = True, sm_running = False, sm_error_reason = [],
      sm_current_rep = 0, sm_total_reps = 0, sm_duration = 0, sm_minix_continuous = False,
      sm_save_folder = [], sm_pause_ms = 5000\<rparr>"

definition new_SingleAcquisitionManager :: SingleAcquisitionManager where
  "new_SingleAcquisitionManager =
     \<lparr>sa_dp5_ctrl = True, sa_running = False, sa_error_reason = [], sa_duration = 0,
      sa_save_filepath = [], sa_spectrum_saved_successfully = False\<rparr>"

definition example_world :: world where
  "example_world =
     \<lparr>dp5_ctrl = example_dp5, minix_ctrl = example_minix, sequence_manager = new_SequenceManager,
      single_acq_manager = new_SingleAcquisitionManager, spawned = 0, trace = []\<rparr>"




subsection \<open>Scenarios of the single-acquisition manager\<close>

text \<open>
  The thread of an earlier acquisition is still referenced and running, and does not
  end within the bounded wait.
\<close>

definition env_thread_alive :: app_env where
  "env_thread_alive = example_env\<lparr>thread_isRunning := True, thread_wait := False\<rparr>"

definition world_after_first_run :: world where
  "world_after_first_run =
     example_world\<lparr>dp5_ctrl := example_dp5\<lparr>worker := Some 0, thread := Some 0\<rparr>, spawned := 1\<rparr>"

text \<open>
  A single acquisition is started there (the controller reports that it could not stop
  the previous thread and starts nothing; the manager is running all the same).
\<close>

definition single_not_acquiring :: world where
  "single_not_acquiring =
     snd (SingleAcquisitionManager_start_acquisition_and_save env_thread_alive 10 ''/data/run.mca''
            world_after_first_run)"

text \<open>A single acquisition is started and the DP5 acquires.\<close>

definition single_acquiring :: world where
  "single_acquiring =
     snd (SingleAcquisitionManager_start_acquisition_and_save example_env 10 ''/data/run.mca''
            example_world)"

subsection \<open>Scenarios of the sequence manager\<close>

definition env_no_folder :: app_env where
  "env_no_folder = example_env\<lparr>sys := example_os\<lparr>path_isdir := (\<lambda>p. False)\<rparr>\<rparr>"

text \<open>The MiniX API refuses the command HV off (it is not among the enabled commands).\<close>

definition env_hv_off_refused :: app_env where
  "env_hv_off_refused =
     example_env\<lparr>send_command :=
       (\<lambda>c. if c = mxcHVOff then Some (Exn APICommandError ''Command mxcHVOff is not enabled.'')
            else None)\<rparr>"

text \<open>\<open>_set_hv_on\<close>, as the polling of the MiniX controller calls it.\<close>

definition minix_set_hv_on_state :: "bool \<Rightarrow> world \<Rightarrow> world" where
  "minix_set_hv_on_state hv_state w =
     (let (c, evs) = set_hv_on_state hv_state (minix_ctrl w) in emit evs (w\<lparr>minix_ctrl := c\<rparr>))"

text \<open>
  A sequence of three repetitions in continuous-source mode is started, the user agrees
  to HV on, and the next poll of the source shows HV on.
\<close>

definition continuous_sequence :: world where
  "continuous_sequence =
     minix_set_hv_on_state True
       (snd (SequenceManager_start_sequence example_env 3 10 True ''/data'' example_world))"

definition is_hv_off_command :: "event \<Rightarrow> bool" where
  "is_hv_off_command e = (e = SendMiniXCommand mxcHVOff)"

subsection \<open>What happens to the application between two returns to the event loop\<close>

text \<open>
  A timer armed by the sequence manager fires; the user (or the main window) stops the
  sequence or the single acquisition; a queued signal of the worker reaches its slot in
  the controller; the thread's \<open>finished\<close> signal reaches
  \<open>_clear_thread_worker_refs\<close>.
\<close>

datatype app_event =
    timer_fired
  | stop_sequence_requested string
  | stop_acquisition_requested string
  | worker_status DP5_DP4_FORMAT_STATUS
  | worker_spectrum "32 word list"
  | worker_message string
  | worker_error string
  | worker_finished
  | thread_finished

fun react :: "app_env \<Rightarrow> app_event \<Rightarrow> world \<Rightarrow> world" where
  "react env timer_fired w = SequenceManager_run_next_step env w"
| "react env (stop_sequence_requested reason) w = SequenceManager_stop_sequence env reason w"
| "react env (stop_acquisition_requested reason) w = SingleAcquisitionManager_stop_acquisition env reason w"
| "react env (worker_status st) w = DP5Controller_handle_worker_status st w"
| "react env (worker_spectrum d) w = DP5Controller_handle_worker_spectrum d w"
| "react env (worker_message m) w = DP5Controller_handle_worker_message m w"
| "react env (worker_error m) w = DP5Controller_handle_worker_error env m w"
| "react env worker_finished w = DP5Controller_handle_worker_finished env w"
| "react env thread_finished w = DP5Controller_clear_thread_worker_refs w"

definition play :: "(app_env \<times> app_event) list \<Rightarrow> world \<Rightarrow> world" where
  "play evs w = fold (\<lambda>(env, ev). react env ev) evs w"

text \<open>The HV-off commands handed to the MiniX API so far.\<close>

definition hv_offs :: "world \<Rightarrow> event list" where
  "hv_offs w = filter is_hv_off_command (trace w)"

text \<open>
  The command that \<open>_finalize\<close> gets through to the MiniX API in continuous mode: none
  if the manager holds no source controller, the API is not loaded, the controller
  application is not running, or \<open>send_command\<close> raises.
\<close>

definition hv_off_sent :: "app_env \<Rightarrow> world \<Rightarrow> event list" where
  "hv_off_sent env w =
     (if sm_minix_ctrl (sequence_manager w) \<and> api (minix_ctrl w) \<and>
         is_controller_app_running (minix_ctrl w) \<and> send_command env mxcHVOff = None
      then [SendMiniXCommand mxcHVOff] else [])"

text \<open>
  One step of the application during a sequence in continuous-source mode, as far as
  the source is concerned: the mode and the source controller's flags stay as they
  are, a stopped sequence stays stopped, and an HV-off command goes out exactly when
  the step ends the run (and then as \<open>hv_off_sent\<close> says).
\<close>

definition continuous_step :: "app_env \<Rightarrow> world \<Rightarrow> world \<Rightarrow> bool" where
  "continuous_step env w w' =
     (sm_minix_continuous (sequence_manager w) \<and>
      sm_minix_continuous (sequence_manager w') \<and>
      sm_minix_ctrl (sequence_manager w') = sm_minix_ctrl (sequence_manager w) \<and>
      api (minix_ctrl w') = api (minix_ctrl w) \<and>
      is_controller_app_running (minix_ctrl w') = is_controller_app_running (minix_ctrl w) \<and>
      hv_on (minix_ctrl w') = hv_on (minix_ctrl w) \<and>
      (sm_running (sequence_manager w') \<longrightarrow> sm_running (sequence_manager w)) \<and>
      hv_offs w' =
        hv_offs w @ (if sm_running (sequence_manager w) \<and> \<not> sm_running (sequence_manager w')
                     then hv_off_sent env w else []))"

section \<open>Properties of the controllers' setters\<close>

text \<open>
  C9. The three state-change signals are edge-triggered. Each setter emits its signal
  exactly when the value it is given differs from the stored boolean, then stores the
  value; given the stored value it changes nothing and emits nothing. So every
  emitted value differs from the value stored before the call.
\<close>

theorem state_change_signals_edge_triggered:
  "snd (set_connected dev v c) = (if is_connected c = v then [] else [connection_changed dev v]) \<and>
   snd (set_acquiring v d) = (if is_acquiring d = v then [] else [acquisition_state_changed v]) \<and>
   snd (set_hv_on_state v m) = (if hv_on m = v then [] else [hv_state_changed v]) \<and>
   is_connected (fst (set_connected dev v c)) = v \<and>
   is_acquiring (fst (set_acquiring v d)) = v \<and>
   hv_on (fst (set_hv_on_state v m)) = v \<and>
   (is_connected c = v \<longrightarrow> fst (set_connected dev v c) = c) \<and>
   (is_acquiring d = v \<longrightarrow> fst (set_acquiring v d) = d) \<and>
   (hv_on m = v \<longrightarrow> fst (set_hv_on_state v m) = m) \<and>
   (connection_changed dev' b \<in> set (snd (set_connected dev v c)) \<longrightarrow> b = v \<and> is_connected c \<noteq> b) \<and>
   (acquisition_state_changed b \<in> set (snd (set_acquiring v d)) \<longrightarrow> b = v \<and> is_acquiring d \<noteq> b) \<and>
   (hv_state_changed b \<in> set (snd (set_hv_on_state v m)) \<longrightarrow> b = v \<and> hv_on m \<noteq> b)"
  by (auto simp: set_connected_def set_acquiring_def set_hv_on_state_def Let_def)

theorem state_change_signals_edge_triggered_witness:
  "snd (set_acquiring True
          \<lparr>api = True, is_connected = True, last_error = [], has_SaveMCADataToFile = True,
           is_acquiring = False, last_config_file = None, worker = None, thread = None,
           last_spectrum_data = None, last_status_data = None\<rparr>) = [acquisition_state_changed True] \<and>
   snd (set_acquiring False
          \<lparr>api = True, is_connected = True, last_error = [], has_SaveMCADataToFile = True,
           is_acquiring = False, last_config_file = None, worker = None, thread = None,
           last_spectrum_data = None, last_status_data = None\<rparr>) = [] \<and>
   snd (set_hv_on_state False
          \<lparr>api = True, is_connected = True, last_error = [], is_controller_app_running = True,
           hv_on = True\<rparr>) = [hv_state_changed False] \<and>
   snd (set_connected MiniX True
          \<lparr>api = True, is_connected = True, last_error = [], is_controller_app_running = True,
           hv_on = True\<rparr>) = []"
  using
    state_change_signals_edge_triggered [of DP5 True
      "\<lparr>api = True, is_connected = True, last_error = [], has_SaveMCADataToFile = True,
        is_acquiring = False, last_config_file = None, worker = None, thread = None,
        last_spectrum_data = None, last_status_data = None\<rparr>"
      "\<lparr>api = True, is_connected = True, last_error = [], has_SaveMCADataToFile = True,
        is_acquiring = False, last_config_file = None, worker = None, thread = None,
        last_spectrum_data = None, last_status_data = None\<rparr>"
      "\<lparr>api = True, is_connected = True, last_error = [], is_controller_app_running = True,
        hv_on = False\<rparr>" DP5 True]
    state_change_signals_edge_triggered [of MiniX False
      "\<lparr>api = True, is_connected = False, last_error = [], is_controller_app_running = True,
        hv_on = True\<rparr>"
      "\<lparr>api = True, is_connected = True, last_error = [], has_SaveMCADataToFile = True,
        is_acquiring = False, last_config_file = None, worker = None, thread = None,
        last_spectrum_data = None, last_status_data = None\<rparr>"
      "\<lparr>api = True, is_connected = True, last_error = [], is_controller_app_running = True,
        hv_on = True\<rparr>" MiniX False]
    state_change_signals_edge_triggered [of MiniX True
      "\<lparr>api = True, is_connected = True, last_error = [], is_controller_app_running = True,
        hv_on = True\<rparr>"
      "\<lparr>api = True, is_connected = True, last_error = [], has_SaveMCADataToFile = True,
        is_acquiring = True, last_config_file = None, worker = None, thread = None,
        last_spectrum_data = None, last_status_data = None\<rparr>"
      "\<lparr>api = True, is_connected = True, last_error = [], is_controller_app_running = True,
        hv_on = True\<rparr>" MiniX True]
  by simp

section \<open>Properties of the acquisition worker\<close>

lemma flag_bit: "mca_enabled_flag b = 0 \<longleftrightarrow> \<not> bit b 5"
  unfolding mca_enabled_flag_def
  by (simp add: and_one_eq bit_iff_odd_drop_bit even_iff_mod_2_eq_zero)

lemma publish_no_finished: "finished \<notin> set (publish_spectrum sp)"
  by (simp add: publish_spectrum_def Let_def)

lemma send_configuration_no_finished:
  "send_configuration env w = (x, c, evs) \<Longrightarrow> finished \<notin> set evs"
  by (auto simp: send_configuration_def Let_def split: option.splits sum.splits bool.splits if_splits)

lemma send_preset_no_finished: "send_preset env w c = (c', evs) \<Longrightarrow> finished \<notin> set evs"
  by (auto simp: send_preset_def Let_def split: sum.splits if_splits)

lemma enable_mca_no_finished: "enable_mca env c = (c', a, evs) \<Longrightarrow> finished \<notin> set evs"
  by (auto simp: enable_mca_def split: option.splits if_splits)

lemma loop_checks_no_finished: "loop_checks env a = (a', evs) \<Longrightarrow> finished \<notin> set evs"
  by (auto simp: loop_checks_def split: if_splits)

lemma set_up_no_finished: "set_up env w = (x, a, evs) \<Longrightarrow> finished \<notin> set evs"
  unfolding set_up_def
  by (auto split: prod.splits option.splits
      dest: send_configuration_no_finished send_preset_no_finished enable_mca_no_finished
            loop_checks_no_finished)

lemma stop_no_finished: "stop_if b w = (w', evs) \<Longrightarrow> finished \<notin> set evs"
  by (auto simp: stop_def stop_if_def split: if_splits)

lemma stop_if_running: "stop_if b w = (w', evs) \<Longrightarrow> b \<or> \<not> running w \<Longrightarrow> \<not> running w'"
  by (auto simp: stop_def stop_if_def split: if_splits)

lemma poll_device_no_finished: "poll_device p w = (x, w', evs) \<Longrightarrow> finished \<notin> set evs"
  using publish_no_finished
  by (auto simp: poll_device_def Let_def split: option.splits sum.splits if_splits prod.splits)

lemma iteration_no_finished: "iteration p w = (f, w', evs) \<Longrightarrow> finished \<notin> set evs"
  by (auto simp: iteration_def split: prod.splits option.splits if_splits dest: poll_device_no_finished)

lemma acquisition_loop_no_finished:
  "acquisition_loop a polls w = Some (w', evs) \<Longrightarrow> finished \<notin> set evs"
proof (induction polls arbitrary: w w' evs)
  case Nil
  then show ?case by (simp split: if_splits)
next
  case (Cons p ps)
  show ?case
  proof (cases "running w \<and> a")
    case False
    with Cons.prems show ?thesis by auto
  next
    case True
    obtain f w1 evs1 where it: "iteration p w = (f, w1, evs1)" by (cases "iteration p w") auto
    have nf1: "finished \<notin> set evs1" using it by (rule iteration_no_finished)
    show ?thesis
    proof (cases f)
      case Break
      with True it Cons.prems nf1 show ?thesis by auto
    next
      case Next
      obtain w2 evs2 where st: "stop_if (stop_called p) w1 = (w2, evs2)"
        by (cases "stop_if (stop_called p) w1") auto
      have nf2: "finished \<notin> set evs2" using st by (rule stop_no_finished)
      from Cons.prems True it Next st obtain w3 evs3 where
        rec: "acquisition_loop a ps w2 = Some (w3, evs3)" and ev: "evs = evs1 @ evs2 @ evs3"
        by (auto split: option.splits)
      from Cons.IH[OF rec] nf1 nf2 ev show ?thesis by auto
    qed
  qed
qed

lemma clean_up_finished:
  "clean_up env a f w = (w', evs) \<Longrightarrow> \<exists>evs'. evs = evs' @ [finished] \<and> finished \<notin> set evs' \<and> published evs = 0"
  by (auto simp: clean_up_def Let_def published_def split: option.splits if_splits)

lemma count_one: "finished \<notin> set xs \<Longrightarrow> count_list (xs @ [finished]) finished = 1"
  by (simp add: count_list_0_iff)

lemma run_finished_aux:
  assumes "run env polls w = Some (w', evs)"
  shows "\<exists>evs'. evs = evs' @ [finished] \<and> finished \<notin> set evs'"
proof (cases "\<not> DP5_API_LOADED env \<or> spectrum_buffer w = None \<or> status_buffer w = None")
  case True
  with assms show ?thesis by (auto simp: run_def split: if_splits)
next
  case False
  obtain x a evs1 where su: "set_up env (w\<lparr>running := True\<rparr>) = (x, a, evs1)"
    by (cases "set_up env (w\<lparr>running := True\<rparr>)") auto
  have nf1: "finished \<notin> set evs1" using su by (rule set_up_no_finished)
  show ?thesis
  proof (cases x)
    case (Some e)
    obtain w2 evs2 where cu: "clean_up env False None (w\<lparr>running := True\<rparr>) = (w2, evs2)"
      by (cases "clean_up env False None (w\<lparr>running := True\<rparr>)") auto
    from clean_up_finished[OF cu] obtain evs2' where e2: "evs2 = evs2' @ [finished]" "finished \<notin> set evs2'" by auto
    from assms False su Some cu have "evs = evs1 @ [error (''DP5 Acquisition setup error: '' @ str_exn e)] @ evs2"
      by (auto simp: run_def Let_def)
    with e2 nf1 show ?thesis by auto
  next
    case None
    obtain w2 evs2 where st: "stop_if (stop_during_setup env) (w\<lparr>running := True\<rparr>) = (w2, evs2)"
      by (cases "stop_if (stop_during_setup env) (w\<lparr>running := True\<rparr>)") auto
    have nf2: "finished \<notin> set evs2" using st by (rule stop_no_finished)
    from assms False su None st obtain w3 evs3 where
      lp: "acquisition_loop a polls w2 = Some (w3, evs3)"
      by (auto simp: run_def Let_def split: option.splits)
    have nf3: "finished \<notin> set evs3" using lp by (rule acquisition_loop_no_finished)
    obtain w4 evs4 where cu: "clean_up env a (Some (status_funcs_ok env)) w3 = (w4, evs4)"
      by (cases "clean_up env a (Some (status_funcs_ok env)) w3") auto
    from clean_up_finished[OF cu] obtain evs4' where e4: "evs4 = evs4' @ [finished]" "finished \<notin> set evs4'" by auto
    from assms False su None st lp cu have "evs = evs1 @ evs2 @ evs3 @ evs4"
      by (auto simp: run_def Let_def)
    with e4 nf1 nf2 nf3 show ?thesis by auto
  qed
qed

lemma iteration_ends:
  "ends_loop p \<Longrightarrow> iteration p w = (f, w', evs) \<Longrightarrow> f = Break \<or> stop_called p \<or> \<not> running w'"
  by (auto simp: ends_loop_def iteration_def poll_device_def Let_def
           split: option.splits sum.splits if_splits prod.splits)

lemma loop_not_running: "\<not> running w \<Longrightarrow> acquisition_loop a polls w = Some (w, [])"
  by (cases polls) auto

lemma loop_returns:
  "\<exists>p\<in>set polls. ends_loop p \<Longrightarrow> acquisition_loop a polls w \<noteq> None"
proof (induction polls arbitrary: w)
  case Nil
  then show ?case by simp
next
  case (Cons p ps)
  show ?case
  proof (cases "running w \<and> a")
    case False
    then show ?thesis by auto
  next
    case True
    obtain f w1 evs1 where it: "iteration p w = (f, w1, evs1)" by (cases "iteration p w") auto
    show ?thesis
    proof (cases f)
      case Break
      with True it show ?thesis by simp
    next
      case Next
      obtain w2 evs2 where st: "stop_if (stop_called p) w1 = (w2, evs2)"
        by (cases "stop_if (stop_called p) w1") auto
      have "acquisition_loop a ps w2 \<noteq> None"
      proof (cases "ends_loop p")
        case el: True
        from iteration_ends[OF el it] Next have "stop_called p \<or> \<not> running w1" by simp
        with st have "\<not> running w2"
          by (auto dest: stop_if_running)
        then show ?thesis by (simp add: loop_not_running)
      next
        case False
        with Cons.prems have "\<exists>p\<in>set ps. ends_loop p" by auto
        from Cons.IH[OF this] show ?thesis .
      qed
      with True it Next st show ?thesis
        by (auto simp: Let_def split: option.splits)
    qed
  qed
qed

lemma loop_not_started: "acquisition_loop False polls w = Some (w, [])"
  by (cases polls) auto

lemma run_returns:
  assumes "\<not> fst (snd (set_up env (w\<lparr>running := True\<rparr>))) \<or> stop_during_setup env \<or> (\<exists>p\<in>set polls. ends_loop p)"
  shows "run env polls w \<noteq> None"
proof -
  obtain x a evs1 where su: "set_up env (w\<lparr>running := True\<rparr>) = (x, a, evs1)"
    by (cases "set_up env (w\<lparr>running := True\<rparr>)") auto
  obtain w2 evs2 where st: "stop_if (stop_during_setup env) (w\<lparr>running := True\<rparr>) = (w2, evs2)"
    by (cases "stop_if (stop_during_setup env) (w\<lparr>running := True\<rparr>)") auto
  have "acquisition_loop a polls w2 \<noteq> None"
  proof -
    from assms su consider "\<not> a" | "stop_during_setup env" | "\<exists>p\<in>set polls. ends_loop p" by auto
    then show ?thesis
    proof cases
      case 1 then show ?thesis by (simp add: loop_not_started)
    next
      case 2 with st have "\<not> running w2" by (auto dest: stop_if_running)
      then show ?thesis by (simp add: loop_not_running)
    next
      case 3 then show ?thesis by (rule loop_returns)
    qed
  qed
  with su st show ?thesis
    by (auto simp: run_def Let_def split: option.splits prod.splits)
qed

text \<open>
  C3. Every execution of \<open>run\<close> that returns has emitted \<open>finished\<close> exactly once, as
  its last signal. \<open>run\<close> returns whenever the analyzer was not armed, \<open>stop\<close> was
  called during the set-up, or some poll ends the loop (cancellation, the hardware flag, an
  attribute error). With the API not loaded or a buffer not allocated it emits one error,
  then \<open>finished\<close>, and nothing else.
\<close>

theorem run_emits_finished_once:
  "(run env polls w = Some (w', evs) \<longrightarrow> count_list evs finished = 1 \<and> last evs = finished) \<and>
   (\<not> fst (snd (set_up env (w\<lparr>running := True\<rparr>))) \<or> stop_during_setup env \<or> (\<exists>p\<in>set polls. ends_loop p)
      \<longrightarrow> run env polls w \<noteq> None) \<and>
   (\<not> DP5_API_LOADED env \<longrightarrow>
      run env polls w = Some (w, [error ''DP5 API not loaded. Cannot start worker.'', finished])) \<and>
   (DP5_API_LOADED env \<and> (spectrum_buffer w = None \<or> status_buffer w = None) \<longrightarrow>
      run env polls w = Some (w, [error ''DP5 API buffers not allocated. Cannot start worker.'', finished]))"
proof (intro conjI impI)
  assume r: "run env polls w = Some (w', evs)"
  from run_finished_aux[OF r] obtain evs' where "evs = evs' @ [finished]" "finished \<notin> set evs'" by auto
  then show "count_list evs finished = 1" "last evs = finished" by (simp_all add: count_list_0_iff)
next
  assume "\<not> fst (snd (set_up env (w\<lparr>running := True\<rparr>))) \<or> stop_during_setup env \<or> (\<exists>p\<in>set polls. ends_loop p)"
  then show "run env polls w \<noteq> None" by (rule run_returns)
next
  assume "\<not> DP5_API_LOADED env"
  then show "run env polls w = Some (w, [error ''DP5 API not loaded. Cannot start worker.'', finished])"
    by (simp add: run_def)
next
  assume "DP5_API_LOADED env \<and> (spectrum_buffer w = None \<or> status_buffer w = None)"
  then show "run env polls w = Some (w, [error ''DP5 API buffers not allocated. Cannot start worker.'', finished])"
    by (auto simp: run_def)
qed


theorem run_emits_finished_once_witness:
  "\<exists>w' evs. run example_worker_env [poll_enabled, poll_disabled] example_worker = Some (w', evs) \<and>
     count_list evs finished = 1 \<and> last evs = finished"
proof -
  have "ends_loop poll_disabled"
    by (simp add: ends_loop_def poll_disabled_def status_disabled_def raw_byte_def mca_enabled_flag_def)
  then have "\<exists>p\<in>set [poll_enabled, poll_disabled]. ends_loop p" by simp
  then have "run example_worker_env [poll_enabled, poll_disabled] example_worker \<noteq> None"
    using run_emits_finished_once [of example_worker_env "[poll_enabled, poll_disabled]" example_worker]
    by blast
  then obtain w' evs where
    "run example_worker_env [poll_enabled, poll_disabled] example_worker = Some (w', evs)" by auto
  with run_emits_finished_once [of example_worker_env "[poll_enabled, poll_disabled]" example_worker w' evs]
  show ?thesis by blast
qed

lemmas worker_eval =
  run_def set_up_def send_configuration_def send_preset_def pret_command_def enable_mca_def
  loop_checks_def status_funcs_ok_def spectrum_func_ok_def stop_if_def stop_def iteration_def
  poll_device_def raw_byte_def mca_enabled_flag_def publish_spectrum_def MAX_BUFFER_DATA_def
  clean_up_def current_mca_enabled_def published_def init_def new_Spec_def new_STATUS_def

lemmas worker_examples =
  example_funcs_def example_os_def example_worker_env_def status_enabled_def status_disabled_def
  spec_three_def spec_empty_def poll_enabled_def poll_disabled_def poll_disabled_empty_def
  example_worker_def polling_worker_def

text \<open>
  C4 as stated fails: the status shows bit 5 of byte 35 clear, the loop ends in that
  iteration, but the device reports a channel count of zero and the guard on the channel
  count publishes no spectrum at all before \<open>finished\<close>.
\<close>

theorem final_spectrum_counterexample:
  "running polling_worker \<and> GetDppStatus poll_disabled_empty = None \<and>
   DppStatusToStruct poll_disabled_empty = Inr status_disabled \<and>
   \<not> bit (RAW status_disabled ! 35) 5 \<and>
   map_option snd (acquisition_loop True [poll_disabled_empty] polling_worker) =
     Some [status_ready status_disabled, message ''MCA Disabled flag detected. Acquisition finished.''] \<and>
   map_option (published \<circ> snd) (acquisition_loop True [poll_disabled_empty] polling_worker) = Some 0 \<and>
   map_option (published \<circ> snd) (run example_worker_env [poll_disabled_empty] example_worker) = Some 0"
  by (simp add: worker_eval worker_examples Let_def)

text \<open>
  C4, amended. When a fetched status has bit 5 of raw byte 35 equal to 0, the loop ends
  within that iteration (the rest of the script is not read, the liveness flag is
  false). The iteration publishes the status, a message and then at most one spectrum:
  exactly one when the final request succeeds and the channel count is between 1 and
  \<open>MAX_BUFFER_DATA\<close>, none when the count is outside that range or the request raises
  (then an error is emitted instead). The clean-up publishes no spectrum and ends with
  \<open>finished\<close>.
\<close>

theorem final_spectrum:
  assumes "running w" "GetDppStatus p = None" "DppStatusToStruct p = Inr st"
    "35 < length (RAW st)" "\<not> bit (RAW st ! 35) 5"
  shows "\<exists>w' evs. acquisition_loop True (p # ps) w = Some (w', evs) \<and> \<not> running w' \<and>
      evs = [status_ready st, message ''MCA Disabled flag detected. Acquisition finished.''] @
            (case RequestSpectrumData p of
               Inl e \<Rightarrow> [error (''Error getting final spectrum: '' @ str_exn e)]
             | Inr (sp, st') \<Rightarrow> publish_spectrum sp) \<and>
      published evs =
        (case RequestSpectrumData p of
           Inl e \<Rightarrow> 0
         | Inr (sp, st') \<Rightarrow> if 0 < sint (CHANNELS sp) \<and> sint (CHANNELS sp) \<le> MAX_BUFFER_DATA then 1 else 0) \<and>
      (\<forall>env funcs_ok. published (snd (clean_up env True funcs_ok w')) = 0 \<and>
                      last (snd (clean_up env True funcs_ok w')) = finished)"
proof -
  from assms have fl: "raw_byte st 35 = Inr (RAW st ! 35)" "mca_enabled_flag (RAW st ! 35) = 0"
    by (simp_all add: raw_byte_def flag_bit)
  have cu: "published (snd (clean_up env True funcs_ok w')) = 0 \<and> last (snd (clean_up env True funcs_ok w')) = finished"
    for env funcs_ok w'
    using clean_up_finished[of env True funcs_ok w' "fst (clean_up env True funcs_ok w')" "snd (clean_up env True funcs_ok w')"]
    by auto
  show ?thesis
  proof (cases "RequestSpectrumData p")
    case (Inl e)
    with assms fl cu show ?thesis
      by (simp add: iteration_def poll_device_def Let_def stop_if_def stop_def published_def loop_not_running)
  next
    case (Inr r)
    obtain sp st' where r: "r = (sp, st')" by (cases r) auto
    with Inr assms fl cu show ?thesis
      by (simp add: iteration_def poll_device_def Let_def stop_if_def stop_def published_def loop_not_running
         publish_spectrum_def)
  qed
qed

theorem final_spectrum_witness:
  "\<exists>w' evs. acquisition_loop True [poll_disabled, poll_enabled] polling_worker = Some (w', evs) \<and>
     \<not> running w' \<and> published evs = 1 \<and>
     evs = [status_ready status_disabled, message ''MCA Disabled flag detected. Acquisition finished.'',
            spectrum_ready [1, 2, 3]]"
proof -
  have "running polling_worker" "GetDppStatus poll_disabled = None"
    "DppStatusToStruct poll_disabled = Inr status_disabled"
    "35 < length (RAW status_disabled)" "\<not> bit (RAW status_disabled ! 35) 5"
    by (simp_all add: worker_examples)
  from final_spectrum [OF this, of "[poll_enabled]"] obtain w' evs where
    l: "acquisition_loop True [poll_disabled, poll_enabled] polling_worker = Some (w', evs)"
      "\<not> running w'" and
    e: "evs = [status_ready status_disabled, message ''MCA Disabled flag detected. Acquisition finished.''] @
            (case RequestSpectrumData poll_disabled of
               Inl e \<Rightarrow> [error (''Error getting final spectrum: '' @ str_exn e)]
             | Inr (sp, st') \<Rightarrow> publish_spectrum sp)"
    by blast
  have "RequestSpectrumData poll_disabled = Inr (spec_three, status_disabled)"
    by (simp add: poll_disabled_def)
  moreover have "publish_spectrum spec_three = [spectrum_ready [1, 2, 3]]"
    by (simp add: publish_spectrum_def spec_three_def MAX_BUFFER_DATA_def)
  ultimately have "evs = [status_ready status_disabled,
      message ''MCA Disabled flag detected. Acquisition finished.'', spectrum_ready [1, 2, 3]]"
    using e by simp
  with l show ?thesis by (simp add: published_def)
qed

text \<open>
  C10. \<open>stop\<close> on a worker that has not begun \<open>run\<close> (the flag is false since
  construction) emits nothing and leaves the worker as it was, so the following \<open>run\<close>
  is the \<open>run\<close> of the untouched worker. For any worker the signals of \<open>run\<close> do not
  depend on an earlier \<open>stop\<close>, and once the two initial checks pass \<open>run\<close> sets the
  flag itself, so the whole outcome is the same.
\<close>

theorem stop_before_run:
  "snd (stop (fst (init env' c t))) = [] \<and>
   run env polls (fst (stop (fst (init env' c t)))) = run env polls (fst (init env' c t)) \<and>
   map_option snd (run env polls (fst (stop w))) = map_option snd (run env polls w) \<and>
   (DP5_API_LOADED env \<and> spectrum_buffer w \<noteq> None \<and> status_buffer w \<noteq> None \<longrightarrow>
      run env polls (fst (stop w)) = run env polls w)"
proof -
  have fresh: "running (fst (init env' c t)) = False"
    by (simp add: init_def Let_def split: option.splits)
  have same: "\<not> running v \<Longrightarrow> fst (stop v) = v \<and> snd (stop v) = []" for v
    by (simp add: stop_def)
  have upd: "(fst (stop v))\<lparr>running := True\<rparr> = v\<lparr>running := True\<rparr>" for v
    by (simp add: stop_def)
  have bufs: "spectrum_buffer (fst (stop v)) = spectrum_buffer v" "status_buffer (fst (stop v)) = status_buffer v" for v
    by (simp_all add: stop_def)
  have ev: "map_option snd (run env polls (fst (stop w))) = map_option snd (run env polls w)"
    by (simp add: run_def upd bufs)
  have full: "DP5_API_LOADED env \<and> spectrum_buffer w \<noteq> None \<and> status_buffer w \<noteq> None \<longrightarrow>
      run env polls (fst (stop w)) = run env polls w"
    by (simp add: run_def upd bufs)
  from fresh same[of "fst (init env' c t)"] ev full show ?thesis by simp
qed

theorem stop_before_run_witness:
  "DP5_API_LOADED example_worker_env \<and> spectrum_buffer polling_worker \<noteq> None \<and>
   status_buffer polling_worker \<noteq> None \<and> running polling_worker \<and>
   run example_worker_env [poll_disabled] (fst (stop polling_worker)) =
   run example_worker_env [poll_disabled] polling_worker"
proof -
  have "DP5_API_LOADED example_worker_env \<and> spectrum_buffer polling_worker \<noteq> None \<and>
    status_buffer polling_worker \<noteq> None \<and> running polling_worker"
    by (simp add: worker_examples init_def Let_def)
  with stop_before_run [of example_worker_env None None example_worker_env "[poll_disabled]" polling_worker]
  show ?thesis by blast
qed

section \<open>Properties of the DP5 controller\<close>

lemma emitted_emit [simp]: "emitted w (emit evs w) = evs"
  by (simp add: emitted_def emit_def)



lemma emitted_append [simp]: "trace w' = trace w @ evs \<Longrightarrow> emitted w w' = evs"
  by (simp add: emitted_def)










end
